theory Spec2Isabelle
  imports Main "HOL-Library.AList" "HOL-Library.Sublist"
begin

section \<open>The API response cache\<close>

text \<open>
  The cache module of the dashboard: the class \<open>APICache\<close>, its singleton \<open>apiCache\<close>,
  \<open>fetchWithCache\<close> and \<open>clearCacheByPattern\<close>.

  Conventions of the embedding.
  \<^item> A stored payload is a JavaScript value of type \<open>T | null\<close>: \<open>JNull\<close> is \<open>null\<close>,
    \<open>JVal x\<close> any other value. \<open>get\<close> answers \<open>null\<close> for "not found".
  \<^item> \<open>Date.now()\<close> is an argument \<open>now\<close> of every operation that reads the clock;
    times and durations are integers (milliseconds).
  \<^item> An optional argument is an \<open>option\<close>: \<open>None\<close> is \<open>undefined\<close>.
  \<^item> The JavaScript \<open>Map\<close> is an association list in insertion order:
    \<open>Map.set\<close> replaces the entry of a key where it stands or appends a new one,
    \<open>Map.delete\<close> removes it, \<open>Map.get\<close> is \<open>map_of\<close>.
  \<^item> \<open>console.log\<close> has no effect on the cache and is left out.
\<close>

subsection \<open>Data\<close>

datatype 'a jsval = JNull | JVal 'a

record 'a CacheItem =
  data :: "'a jsval"
  timestamp :: int
  expiresAt :: int

record 'a APICache =
  cache :: "(string \<times> 'a CacheItem) list"
  defaultTTL :: int

record CacheStats =
  size_stats :: nat
  keys_stats :: "string list"

text \<open>\<open>constructor(defaultTTL = 5 * 60 * 1000)\<close>\<close>

definition APICache_new :: "int option \<Rightarrow> 'a APICache" where
  "APICache_new dttl =
     \<lparr>cache = [], defaultTTL = (case dttl of None \<Rightarrow> 5 * 60 * 1000 | Some d \<Rightarrow> d)\<rparr>"

subsection \<open>The store\<close>

text \<open>
  \<open>ttl || this.defaultTTL\<close>: the left operand when it is truthy, the right one when it
  is \<open>undefined\<close> or \<open>0\<close>.
\<close>

definition ttl_or :: "int option \<Rightarrow> int \<Rightarrow> int" where
  "ttl_or ttl d = (case ttl of None \<Rightarrow> d | Some t \<Rightarrow> if t = 0 then d else t)"

definition set_cache :: "string \<Rightarrow> 'a jsval \<Rightarrow> int option \<Rightarrow> int \<Rightarrow> 'a APICache \<Rightarrow> 'a APICache" where
  "set_cache key d ttl now c =
     (let expires = now + ttl_or ttl (defaultTTL c)
      in c\<lparr>cache := AList.update key \<lparr>data = d, timestamp = now, expiresAt = expires\<rparr> (cache c)\<rparr>)"

definition get :: "string \<Rightarrow> int \<Rightarrow> 'a APICache \<Rightarrow> 'a jsval \<times> 'a APICache" where
  "get key now c =
     (case map_of (cache c) key of
        None \<Rightarrow> (JNull, c)
      | Some item \<Rightarrow>
          if now > expiresAt item
          then (JNull, c\<lparr>cache := AList.delete key (cache c)\<rparr>)
          else (data item, c))"

definition has :: "string \<Rightarrow> int \<Rightarrow> 'a APICache \<Rightarrow> bool \<times> 'a APICache" where
  "has key now c = (case get key now c of (r, c') \<Rightarrow> (r \<noteq> JNull, c'))"

definition delete_cache :: "string \<Rightarrow> 'a APICache \<Rightarrow> 'a APICache" where
  "delete_cache key c = c\<lparr>cache := AList.delete key (cache c)\<rparr>"

definition clear :: "'a APICache \<Rightarrow> 'a APICache" where
  "clear c = c\<lparr>cache := []\<rparr>"

definition clearExpired :: "int \<Rightarrow> 'a APICache \<Rightarrow> 'a APICache" where
  "clearExpired now c =
     fold (\<lambda>(key, item) c'. if now > expiresAt item then delete_cache key c' else c') (cache c) c"

definition size_cache :: "'a APICache \<Rightarrow> nat" where
  "size_cache c = length (cache c)"

definition getStats :: "'a APICache \<Rightarrow> CacheStats" where
  "getStats c = \<lparr>size_stats = length (cache c), keys_stats = map fst (cache c)\<rparr>"

text \<open>A \<open>Map\<close> holds each key once; every operation above keeps it so.\<close>

definition wf_cache :: "'a APICache \<Rightarrow> bool" where
  "wf_cache c = distinct (map fst (cache c))"

subsection \<open>The fetch wrapper\<close>

text \<open>
  \<open>fetch\<close> is the platform's: what it resolves to is an argument of the model, \<open>None\<close>
  when the promise rejects. Of a \<open>Response\<close> the code reads \<open>ok\<close>, \<open>status\<close> and
  \<open>json()\<close>, the latter \<open>None\<close> when the body does not parse. The requests issued are
  logged in the state, next to the singleton cache.
\<close>

record RequestInit =
  req_method :: "string option"
  req_body :: "string option"

record 'a Response =
  ok :: bool
  status :: int
  json :: "'a jsval option"

datatype error = HttpError int | FetchRejected | JsonRejected

record 'a world =
  apiCache :: "'a APICache"
  requests :: "(string \<times> RequestInit option) list"

text \<open>\<open>options?.method || 'GET'\<close>\<close>

definition method_of :: "RequestInit option \<Rightarrow> string" where
  "method_of options =
     (case options of
        None \<Rightarrow> ''GET''
      | Some opts \<Rightarrow> (case req_method opts of None \<Rightarrow> ''GET'' | Some m \<Rightarrow> if m = [] then ''GET'' else m))"

text \<open>
  The part of \<open>fetchWithCache\<close> after the cache lookup: the request, the status check,
  the decoding and the write-back, at clock \<open>now\<close>.
\<close>

definition fetch_api ::
  "string \<Rightarrow> RequestInit option \<Rightarrow> int option \<Rightarrow> 'a Response option \<Rightarrow> int \<Rightarrow> 'a world
     \<Rightarrow> (error + 'a jsval) \<times> 'a world" where
  "fetch_api url options cacheTTL net now w =
     (let m = method_of options;
          cacheKey = m @ '':'' @ url;
          w1 = w\<lparr>requests := requests w @ [(url, options)]\<rparr>
      in case net of
           None \<Rightarrow> (Inl FetchRejected, w1)
         | Some response \<Rightarrow>
             if \<not> ok response then (Inl (HttpError (status response)), w1)
             else (case json response of
                     None \<Rightarrow> (Inl JsonRejected, w1)
                   | Some d \<Rightarrow>
                       if m = ''GET''
                       then (Inr d, w1\<lparr>apiCache := set_cache cacheKey d cacheTTL now (apiCache w1)\<rparr>)
                       else (Inr d, w1)))"

text \<open>
  \<open>fetchWithCache(url, options, cacheTTL)\<close>; \<open>t_get\<close> is the clock at the lookup,
  \<open>net\<close> what \<open>fetch(url, options)\<close> resolves to, \<open>t_set\<close> the clock at the write-back.
\<close>

definition fetchWithCache ::
  "string \<Rightarrow> RequestInit option \<Rightarrow> int option \<Rightarrow> int \<Rightarrow> 'a Response option \<Rightarrow> int \<Rightarrow> 'a world
     \<Rightarrow> (error + 'a jsval) \<times> 'a world" where
  "fetchWithCache url options cacheTTL t_get net t_set w =
     (let m = method_of options;
          cacheKey = m @ '':'' @ url
      in if m = ''GET''
         then (case get cacheKey t_get (apiCache w) of
                 (cached, c1) \<Rightarrow>
                   if cached \<noteq> JNull then (Inr cached, w\<lparr>apiCache := c1\<rparr>)
                   else fetch_api url options cacheTTL net t_set (w\<lparr>apiCache := c1\<rparr>))
         else fetch_api url options cacheTTL net t_set w)"

subsection \<open>The pattern invalidator\<close>

text \<open>\<open>key.includes(pattern)\<close>: \<open>pattern\<close> occurs in \<open>key\<close> as a contiguous run.\<close>

fun includes_str :: "string \<Rightarrow> string \<Rightarrow> bool" where
  "includes_str [] pattern = (pattern = [])"
| "includes_str (c # cs) pattern = (prefix pattern (c # cs) \<or> includes_str cs pattern)"

definition clearCacheByPattern :: "string \<Rightarrow> 'a APICache \<Rightarrow> 'a APICache" where
  "clearCacheByPattern pattern c =
     (let keys = keys_stats (getStats c);
          matchedKeys = filter (\<lambda>key. includes_str key pattern) keys
      in fold delete_cache matchedKeys c)"

section \<open>Properties of the store\<close>

lemma map_of_set_cache:
  "map_of (cache (set_cache key d ttl now c)) =
     (map_of (cache c))(key \<mapsto> \<lparr>data = d, timestamp = now, expiresAt = now + ttl_or ttl (defaultTTL c)\<rparr>)"
  by (simp add: set_cache_def Let_def update_conv')

lemma defaultTTL_set_cache: "defaultTTL (set_cache key d ttl now c) = defaultTTL c"
  by (simp add: set_cache_def Let_def)

lemma wf_set_cache: "wf_cache c \<Longrightarrow> wf_cache (set_cache key d ttl now c)"
  by (simp add: wf_cache_def set_cache_def Let_def distinct_update)

lemma wf_delete_cache: "wf_cache c \<Longrightarrow> wf_cache (delete_cache key c)"
  by (simp add: wf_cache_def delete_cache_def distinct_delete)

lemma wf_get: "wf_cache c \<Longrightarrow> wf_cache (snd (get key now c))"
  by (simp add: wf_cache_def get_def distinct_delete split: option.split)

lemma get_null_stable:
  "fst (get key t c) = JNull \<Longrightarrow> fst (get key t' (snd (get key t c))) = JNull"
  by (auto simp: get_def delete_conv' split: option.splits if_splits)

lemma get_store_subset: "set (cache (snd (get key t c))) \<subseteq> set (cache c)"
  by (auto simp: get_def AList.delete_eq split: option.splits)

lemma get_other_keys:
  "k \<noteq> key \<Longrightarrow> map_of (cache (snd (get key t c))) k = map_of (cache c) k"
  by (auto simp: get_def split: option.splits)

text \<open>
  C1, as amended. A value stored with \<open>set(key, value, ttl)\<close>, \<open>ttl > 0\<close>, at time \<open>t0\<close> is
  returned by \<open>get(key)\<close> at every time \<open>t0 + t\<close> with \<open>t \<le> ttl\<close>, the instant \<open>t = ttl\<close>
  included, and the store is left as it was; at every time with \<open>t > ttl\<close> the read answers
  \<open>null\<close> (not found) and removes the entry.
\<close>

theorem ttl_expiry:
  "0 < ttl \<Longrightarrow>
   get key (t0 + t) (set_cache key v (Some ttl) t0 c) =
     (if t \<le> ttl then (v, set_cache key v (Some ttl) t0 c)
      else (JNull, delete_cache key (set_cache key v (Some ttl) t0 c)))"
  by (simp add: get_def map_of_set_cache ttl_or_def delete_cache_def)

theorem ttl_expiry_witness:
  "(0::int) < 1000
   \<and> get ''k'' (0 + 500) (set_cache ''k'' (JVal (1::nat)) (Some 1000) 0 (APICache_new (Some 1000)))
       = (JVal 1, \<lparr>cache = [(''k'', \<lparr>data = JVal 1, timestamp = 0, expiresAt = 1000\<rparr>)], defaultTTL = 1000\<rparr>)
   \<and> get ''k'' (0 + 1500) (set_cache ''k'' (JVal (1::nat)) (Some 1000) 0 (APICache_new (Some 1000)))
       = (JNull, \<lparr>cache = [], defaultTTL = 1000\<rparr>)"
  using ttl_expiry [of 1000 "''k''" 0 500 "JVal (1::nat)" "APICache_new (Some 1000)"]
        ttl_expiry [of 1000 "''k''" 0 1500 "JVal (1::nat)" "APICache_new (Some 1000)"]
  by (simp add: set_cache_def APICache_new_def ttl_or_def delete_cache_def)

text \<open>
  C1 as stated fails at \<open>t = ttl\<close>: with \<open>ttl = 1000\<close>, set at time 0, the read at time
  1000 still returns the value, since \<open>get\<close> drops an entry only when \<open>now > expiresAt\<close>.
\<close>

theorem ttl_expiry_counterexample:
  "fst (get ''k'' (0 + 1000) (set_cache ''k'' (JVal (1::nat)) (Some 1000) 0 (APICache_new None)))
     = JVal 1"
  by (simp add: get_def set_cache_def APICache_new_def ttl_or_def)

section \<open>Properties of the fetch wrapper\<close>

lemma fetch_api_failure:
  "\<not> ok r \<Longrightarrow>
   fetch_api url options ttl (Some r) now w =
     (Inl (HttpError (status r)), w\<lparr>requests := requests w @ [(url, options)]\<rparr>)"
  by (simp add: fetch_api_def Let_def)

lemma requests_fetch_api:
  "requests (snd (fetch_api url options ttl net now w)) = requests w @ [(url, options)]"
  by (simp add: fetch_api_def Let_def split: option.split)

lemma fetchWithCache_GET:
  "method_of options = ''GET'' \<Longrightarrow>
   fetchWithCache url options ttl t1 net t2 w =
     (if fst (get (''GET:'' @ url) t1 (apiCache w)) \<noteq> JNull
      then (Inr (fst (get (''GET:'' @ url) t1 (apiCache w))),
            w\<lparr>apiCache := snd (get (''GET:'' @ url) t1 (apiCache w))\<rparr>)
      else fetch_api url options ttl net t2 (w\<lparr>apiCache := snd (get (''GET:'' @ url) t1 (apiCache w))\<rparr>))"
  by (simp add: fetchWithCache_def Let_def split: prod.split)

lemma fetchWithCache_other:
  "method_of options \<noteq> ''GET'' \<Longrightarrow>
   fetchWithCache url options ttl t1 net t2 w = fetch_api url options ttl net t2 w"
  by (simp add: fetchWithCache_def Let_def)

text \<open>
  C2, as amended. When a call of \<open>fetchWithCache\<close> reaches the network (its method is not
  GET, or the lookup of its key misses) and the response is not \<open>ok\<close>, the call fails with
  the error carrying the response's status; the store is left as the call's own lookup
  left it (for a GET call, \<open>get\<close> has purged a stale entry of the key, if there was one;
  for any other method the store is untouched), so no entry is written and every other
  key keeps its entry; one request is logged; for a GET call a later \<open>get\<close> of the key
  answers \<open>null\<close> at any time; and a later \<open>fetchWithCache\<close> of the same URL and options
  issues a request again.
\<close>

theorem failed_fetch_not_cached:
  assumes resp: "net = Some r" "\<not> ok r"
    and miss: "method_of options = ''GET'' \<Longrightarrow>
                 fst (get (method_of options @ '':'' @ url) t1 (apiCache w)) = JNull"
  shows "case fetchWithCache url options ttl t1 net t2 w of (res, w') \<Rightarrow>
      res = Inl (HttpError (status r))
    \<and> apiCache w' = (if method_of options = ''GET''
                      then snd (get (method_of options @ '':'' @ url) t1 (apiCache w))
                      else apiCache w)
    \<and> set (cache (apiCache w')) \<subseteq> set (cache (apiCache w))
    \<and> (\<forall>k. k \<noteq> method_of options @ '':'' @ url \<longrightarrow>
            map_of (cache (apiCache w')) k = map_of (cache (apiCache w)) k)
    \<and> requests w' = requests w @ [(url, options)]
    \<and> (method_of options = ''GET'' \<longrightarrow>
         (\<forall>t3. fst (get (method_of options @ '':'' @ url) t3 (apiCache w')) = JNull))
    \<and> (\<forall>ttl' t3 net' t4.
         requests (snd (fetchWithCache url options ttl' t3 net' t4 w')) = requests w' @ [(url, options)])"
proof (cases "method_of options = ''GET''")
  case True
  let ?c1 = "snd (get (''GET:'' @ url) t1 (apiCache w))"
  have m: "fst (get (''GET:'' @ url) t1 (apiCache w)) = JNull"
    using miss True by simp
  have run: "fetchWithCache url options ttl t1 net t2 w =
      (Inl (HttpError (status r)), w\<lparr>apiCache := ?c1, requests := requests w @ [(url, options)]\<rparr>)"
    using True m resp by (simp add: fetchWithCache_GET fetch_api_failure)
  have again: "fst (get (''GET:'' @ url) t3 ?c1) = JNull" for t3
    using m by (rule get_null_stable)
  show ?thesis
    using True run again get_store_subset [of "''GET:'' @ url" t1 "apiCache w"]
    by (simp add: get_other_keys fetchWithCache_GET requests_fetch_api)
next
  case False
  have run: "fetchWithCache url options ttl t1 net t2 w =
      (Inl (HttpError (status r)), w\<lparr>requests := requests w @ [(url, options)]\<rparr>)"
    using False resp by (simp add: fetchWithCache_other fetch_api_failure)
  show ?thesis
    using False run by (simp add: fetchWithCache_other requests_fetch_api)
qed

theorem failed_fetch_not_cached_witness:
  "\<not> ok \<lparr>ok = False, status = 500, json = (None :: nat jsval option)\<rparr>
   \<and> method_of None = ''GET''
   \<and> fst (get (method_of None @ '':'' @ ''https://a/x'') 10
        \<lparr>cache = [(''GET:https://a/x'', \<lparr>data = JVal (1::nat), timestamp = 0, expiresAt = 5\<rparr>),
                  (''GET:https://b/z'', \<lparr>data = JVal 2, timestamp = 0, expiresAt = 50\<rparr>)],
         defaultTTL = 300000\<rparr>) = JNull
   \<and> fetchWithCache ''https://a/x'' None None 10 (Some \<lparr>ok = False, status = 500, json = None\<rparr>) 11
       \<lparr>apiCache = \<lparr>cache = [(''GET:https://a/x'', \<lparr>data = JVal (1::nat), timestamp = 0, expiresAt = 5\<rparr>),
                             (''GET:https://b/z'', \<lparr>data = JVal 2, timestamp = 0, expiresAt = 50\<rparr>)],
                    defaultTTL = 300000\<rparr>,
        requests = []\<rparr>
   = (Inl (HttpError 500),
       \<lparr>apiCache = \<lparr>cache = [(''GET:https://b/z'', \<lparr>data = JVal 2, timestamp = 0, expiresAt = 50\<rparr>)],
                    defaultTTL = 300000\<rparr>,
        requests = [(''https://a/x'', None)]\<rparr>)"
  using failed_fetch_not_cached [of "Some \<lparr>ok = False, status = 500, json = None\<rparr>"
      "\<lparr>ok = False, status = 500, json = None\<rparr>" None "''https://a/x''" 10
      "\<lparr>apiCache = \<lparr>cache = [(''GET:https://a/x'', \<lparr>data = JVal (1::nat), timestamp = 0, expiresAt = 5\<rparr>),
                             (''GET:https://b/z'', \<lparr>data = JVal 2, timestamp = 0, expiresAt = 50\<rparr>)],
                    defaultTTL = 300000\<rparr>,
        requests = []\<rparr>" None 11]
  by (simp add: method_of_def get_def split: prod.splits)

text \<open>
  C2 as stated fails in two places. A failed GET call whose key holds a stale entry does
  change the store: its lookup purges that entry. And after a failed call of another
  method, \<open>get\<close> of its key still finds an entry that was stored under that key.
\<close>

theorem failed_fetch_counterexample:
  "apiCache (snd (fetchWithCache ''https://a/x'' None None 10
       (Some \<lparr>ok = False, status = 500, json = None\<rparr>) 11
       \<lparr>apiCache = \<lparr>cache = [(''GET:https://a/x'', \<lparr>data = JVal (1::nat), timestamp = 0, expiresAt = 5\<rparr>)],
                    defaultTTL = 300000\<rparr>,
        requests = []\<rparr>))
   \<noteq> \<lparr>cache = [(''GET:https://a/x'', \<lparr>data = JVal (1::nat), timestamp = 0, expiresAt = 5\<rparr>)],
       defaultTTL = 300000\<rparr>
   \<and> fst (get ''POST:https://a/x'' 11
       (apiCache (snd (fetchWithCache ''https://a/x'' (Some \<lparr>req_method = Some ''POST'', req_body = None\<rparr>) None 10
          (Some \<lparr>ok = False, status = 500, json = None\<rparr>) 11
          \<lparr>apiCache = \<lparr>cache = [(''POST:https://a/x'', \<lparr>data = JVal (1::nat), timestamp = 0, expiresAt = 50\<rparr>)],
                       defaultTTL = 300000\<rparr>,
           requests = []\<rparr>))))
     = JVal 1"
  by (simp add: fetchWithCache_def fetch_api_def method_of_def get_def Let_def)

section \<open>Writing an entry\<close>

text \<open>
  C3, as amended. \<open>set(key, value, ttl)\<close> always yields a store whose entry for \<open>key\<close> holds
  the given value, the time of the write, and \<open>expiresAt = now + ttl\<close> when \<open>ttl\<close> is given
  and is not 0, \<open>now + defaultTTL\<close> when \<open>ttl\<close> is absent or 0; every other key and the
  default TTL are as before; a second \<open>set\<close> of the key replaces the entry, with
  \<open>expiresAt\<close> counted from the second write, and leaves the store as if the first had
  not happened.
\<close>

theorem set_stores_entry:
  "map_of (cache (set_cache key v ttl now c)) =
     (map_of (cache c))(key \<mapsto> \<lparr>data = v, timestamp = now,
           expiresAt = now + (case ttl of None \<Rightarrow> defaultTTL c
                                | Some t \<Rightarrow> if t = 0 then defaultTTL c else t)\<rparr>)
   \<and> defaultTTL (set_cache key v ttl now c) = defaultTTL c
   \<and> map_of (cache (set_cache key v2 ttl2 now2 (set_cache key v ttl now c))) key =
     Some \<lparr>data = v2, timestamp = now2,
           expiresAt = now2 + (case ttl2 of None \<Rightarrow> defaultTTL c
                                 | Some t \<Rightarrow> if t = 0 then defaultTTL c else t)\<rparr>
   \<and> cache (set_cache key v2 ttl2 now2 (set_cache key v ttl now c)) =
     cache (set_cache key v2 ttl2 now2 c)"
  by (simp add: set_cache_def Let_def update_conv' ttl_or_def split: option.split)

text \<open>
  C3 as stated fails at \<open>ttl = 0\<close>: the write at time 100 into a store with the default
  TTL of five minutes expires at 300100, not at \<open>100 + 0\<close>.
\<close>

theorem set_zero_ttl_counterexample:
  "map_of (cache (set_cache ''k'' (JVal (1::nat)) (Some 0) 100 (APICache_new None))) ''k''
     = Some \<lparr>data = JVal 1, timestamp = 100, expiresAt = 300100\<rparr>
   \<and> map_of (cache (set_cache ''k'' (JVal (1::nat)) (Some 0) 100 (APICache_new None))) ''k''
     \<noteq> Some \<lparr>data = JVal 1, timestamp = 100, expiresAt = 100 + 0\<rparr>"
  by (simp add: set_cache_def APICache_new_def ttl_or_def)

section \<open>Hits, misses and bypasses\<close>

lemma get_fresh:
  "map_of (cache c) key = Some item \<Longrightarrow> now \<le> expiresAt item \<Longrightarrow> get key now c = (data item, c)"
  by (simp add: get_def)

lemma get_stale:
  "map_of (cache c) key = Some item \<Longrightarrow> expiresAt item < now \<Longrightarrow>
   get key now c = (JNull, delete_cache key c)"
  by (simp add: get_def delete_cache_def)

lemma fetch_api_success_GET:
  "method_of options = ''GET'' \<Longrightarrow> ok r \<Longrightarrow> json r = Some d \<Longrightarrow>
   fetch_api url options ttl (Some r) now w =
     (Inr d, w\<lparr>requests := requests w @ [(url, options)],
               apiCache := set_cache (''GET:'' @ url) d ttl now (apiCache w)\<rparr>)"
  by (simp add: fetch_api_def Let_def)


text \<open>
  C4, as amended. For a GET URL whose first \<open>fetchWithCache\<close> call misses the cache and
  succeeds with a payload other than \<open>null\<close>, a second call whose lookup happens no later
  than \<open>expiresAt\<close> of the entry the first one wrote (its write time plus
  \<open>cacheTTL || defaultTTL\<close>) issues no request: the two calls issue exactly one network
  request, the second returns what the first returned, and it leaves the store as it was.
\<close>

theorem miss_then_fetch_once:
  assumes meth: "method_of options = ''GET''"
    and miss: "fst (get (''GET:'' @ url) t1 (apiCache w)) = JNull"
    and resp: "net1 = Some r" "ok r" "json r = Some (JVal d)"
    and fresh: "t3 \<le> t2 + (case ttl of None \<Rightarrow> defaultTTL (apiCache w)
                              | Some t \<Rightarrow> if t = 0 then defaultTTL (apiCache w) else t)"
  shows "case fetchWithCache url options ttl t1 net1 t2 w of (res1, w1) \<Rightarrow>
           (case fetchWithCache url options ttl2 t3 net2 t4 w1 of (res2, w2) \<Rightarrow>
              res1 = Inr (JVal d) \<and> res2 = res1
            \<and> requests w1 = requests w @ [(url, options)]
            \<and> requests w2 = requests w1
            \<and> apiCache w2 = apiCache w1)"
proof -
  let ?k = "''GET:'' @ url"
  let ?c1 = "snd (get ?k t1 (apiCache w))"
  let ?w1 = "w\<lparr>requests := requests w @ [(url, options)],
               apiCache := set_cache ?k (JVal d) ttl t2 ?c1\<rparr>"
  have dttl: "defaultTTL ?c1 = defaultTTL (apiCache w)"
    by (simp add: get_def split: option.split)
  have first: "fetchWithCache url options ttl t1 net1 t2 w = (Inr (JVal d), ?w1)"
    using meth miss resp by (simp add: fetchWithCache_GET fetch_api_success_GET)
  have eff: "ttl_or ttl (defaultTTL ?c1) =
      (case ttl of None \<Rightarrow> defaultTTL (apiCache w)
       | Some t \<Rightarrow> if t = 0 then defaultTTL (apiCache w) else t)"
    unfolding dttl by (simp add: ttl_or_def)
  have item: "map_of (cache (apiCache ?w1)) ?k =
      Some \<lparr>data = JVal d, timestamp = t2, expiresAt = t2 + ttl_or ttl (defaultTTL ?c1)\<rparr>"
    by (simp add: map_of_set_cache)
  have look: "get ?k t3 (apiCache ?w1) = (JVal d, apiCache ?w1)"
    using get_fresh [OF item, of t3] fresh unfolding eff by simp
  have second: "fetchWithCache url options ttl2 t3 net2 t4 ?w1 = (Inr (JVal d), ?w1)"
    using meth look by (simp add: fetchWithCache_GET)
  show ?thesis
    unfolding first second prod.case by simp
qed

theorem miss_then_fetch_once_witness:
  "method_of None = ''GET''
   \<and> fst (get (''GET:'' @ ''https://a/x'') 0 (APICache_new None :: nat APICache)) = JNull
   \<and> ok \<lparr>ok = True, status = 200, json = Some (JVal (7::nat))\<rparr>
   \<and> json \<lparr>ok = True, status = 200, json = Some (JVal (7::nat))\<rparr> = Some (JVal 7)
   \<and> (2::int) \<le> 1 + 300000
   \<and> fst (fetchWithCache ''https://a/x'' None None 0
         (Some \<lparr>ok = True, status = 200, json = Some (JVal (7::nat))\<rparr>) 1
         \<lparr>apiCache = APICache_new None, requests = []\<rparr>) = Inr (JVal 7)
   \<and> fetchWithCache ''https://a/x'' None None 2
         (Some \<lparr>ok = True, status = 200, json = Some (JVal (8::nat))\<rparr>) 3
         (snd (fetchWithCache ''https://a/x'' None None 0
            (Some \<lparr>ok = True, status = 200, json = Some (JVal (7::nat))\<rparr>) 1
            \<lparr>apiCache = APICache_new None, requests = []\<rparr>))
     = (Inr (JVal 7),
        \<lparr>apiCache = \<lparr>cache = [(''GET:https://a/x'', \<lparr>data = JVal 7, timestamp = 1, expiresAt = 300001\<rparr>)],
                     defaultTTL = 300000\<rparr>,
         requests = [(''https://a/x'', None)]\<rparr>)"
  using miss_then_fetch_once [of None "''https://a/x''" 0 "\<lparr>apiCache = APICache_new None, requests = []\<rparr>"
      "Some \<lparr>ok = True, status = 200, json = Some (JVal (7::nat))\<rparr>"
      "\<lparr>ok = True, status = 200, json = Some (JVal (7::nat))\<rparr>" 7 2 1 None None
      "Some \<lparr>ok = True, status = 200, json = Some (JVal (8::nat))\<rparr>" 3]
  by (simp add: method_of_def get_def APICache_new_def fetchWithCache_def fetch_api_def set_cache_def
        ttl_or_def Let_def)

text \<open>
  C4 as stated fails when the payload is \<open>null\<close>: the first call succeeds with \<open>null\<close> and
  stores it, the second call's lookup cannot tell the stored \<open>null\<close> from a miss, and two
  requests are issued.
\<close>

theorem null_payload_counterexample:
  "fst (fetchWithCache ''https://a/x'' None None 0
         (Some \<lparr>ok = True, status = 200, json = Some (JNull :: nat jsval)\<rparr>) 1
         \<lparr>apiCache = APICache_new None, requests = []\<rparr>) = Inr JNull
   \<and> requests (snd (fetchWithCache ''https://a/x'' None None 2
         (Some \<lparr>ok = True, status = 200, json = Some (JNull :: nat jsval)\<rparr>) 3
         (snd (fetchWithCache ''https://a/x'' None None 0
            (Some \<lparr>ok = True, status = 200, json = Some (JNull :: nat jsval)\<rparr>) 1
            \<lparr>apiCache = APICache_new None, requests = []\<rparr>))))
     = [(''https://a/x'', None), (''https://a/x'', None)]"
  by (simp add: fetchWithCache_def fetch_api_def method_of_def get_def set_cache_def
        APICache_new_def ttl_or_def Let_def)


text \<open>
  C5. A \<open>fetchWithCache\<close> call whose method (\<open>options?.method || 'GET'\<close>) is not
  \<open>"GET"\<close> always issues the request (one more entry in the request log), its result
  is decided by the response alone, whatever the cache holds, and the store is the same
  after the call as before.
\<close>

theorem non_GET_bypasses_cache:
  "method_of options \<noteq> ''GET'' \<Longrightarrow>
   fetchWithCache url options ttl t1 net t2 w =
     (case net of
        None \<Rightarrow> Inl FetchRejected
      | Some r \<Rightarrow> if \<not> ok r then Inl (HttpError (status r))
                  else (case json r of None \<Rightarrow> Inl JsonRejected | Some d \<Rightarrow> Inr d),
      w\<lparr>requests := requests w @ [(url, options)]\<rparr>)"
  by (simp add: fetchWithCache_def fetch_api_def Let_def split: option.split)

theorem non_GET_bypasses_cache_witness:
  "method_of (Some \<lparr>req_method = Some ''POST'', req_body = Some ''{}''\<rparr>) \<noteq> ''GET''
   \<and> fetchWithCache ''https://a/x'' (Some \<lparr>req_method = Some ''POST'', req_body = Some ''{}''\<rparr>) None 10
        (Some \<lparr>ok = True, status = 200, json = Some (JVal (9::nat))\<rparr>) 11
        \<lparr>apiCache = \<lparr>cache = [(''POST:https://a/x'', \<lparr>data = JVal 1, timestamp = 0, expiresAt = 50\<rparr>),
                              (''GET:https://a/x'', \<lparr>data = JVal 2, timestamp = 0, expiresAt = 50\<rparr>)],
                     defaultTTL = 300000\<rparr>,
         requests = []\<rparr>
     = (Inr (JVal 9),
        \<lparr>apiCache = \<lparr>cache = [(''POST:https://a/x'', \<lparr>data = JVal 1, timestamp = 0, expiresAt = 50\<rparr>),
                              (''GET:https://a/x'', \<lparr>data = JVal 2, timestamp = 0, expiresAt = 50\<rparr>)],
                     defaultTTL = 300000\<rparr>,
         requests = [(''https://a/x'', Some \<lparr>req_method = Some ''POST'', req_body = Some ''{}''\<rparr>)]\<rparr>)"
  using non_GET_bypasses_cache [of "Some \<lparr>req_method = Some ''POST'', req_body = Some ''{}''\<rparr>"
      "''https://a/x''" None 10 "Some \<lparr>ok = True, status = 200, json = Some (JVal (9::nat))\<rparr>" 11
      "\<lparr>apiCache = \<lparr>cache = [(''POST:https://a/x'', \<lparr>data = JVal 1, timestamp = 0, expiresAt = 50\<rparr>),
                              (''GET:https://a/x'', \<lparr>data = JVal 2, timestamp = 0, expiresAt = 50\<rparr>)],
                     defaultTTL = 300000\<rparr>,
         requests = []\<rparr>"]
  by (simp add: method_of_def)

section \<open>Pattern invalidation\<close>

lemma includes_str_iff: "includes_str key pattern \<longleftrightarrow> (\<exists>pre post. key = pre @ pattern @ post)"
proof (induction key)
  case Nil
  then show ?case by auto
next
  case (Cons c cs)
  show ?case
  proof
    assume "includes_str (c # cs) pattern"
    then consider "prefix pattern (c # cs)" | "includes_str cs pattern" by auto
    then show "\<exists>pre post. c # cs = pre @ pattern @ post"
    proof cases
      case 1
      then obtain post where "c # cs = pattern @ post" by (auto simp: prefix_def)
      then have "c # cs = [] @ pattern @ post" by simp
      then show ?thesis by blast
    next
      case 2
      then obtain pre post where "cs = pre @ pattern @ post" using Cons.IH by blast
      then have "c # cs = (c # pre) @ pattern @ post" by simp
      then show ?thesis by blast
    qed
  next
    assume "\<exists>pre post. c # cs = pre @ pattern @ post"
    then obtain pre post where eq: "c # cs = pre @ pattern @ post" by blast
    show "includes_str (c # cs) pattern"
    proof (cases pre)
      case Nil
      then have "prefix pattern (c # cs)" using eq by (simp add: prefix_def)
      then show ?thesis by simp
    next
      case (Cons p ps)
      then have "cs = ps @ pattern @ post" using eq by simp
      then have "includes_str cs pattern" using Cons.IH by blast
      then show ?thesis by simp
    qed
  qed
qed

lemma cache_delete_cache:
  "cache (delete_cache k c) = filter (\<lambda>(k', item). k' \<noteq> k) (cache c)"
  by (auto simp: delete_cache_def AList.delete_eq intro: filter_cong)

lemma cache_fold_delete:
  "cache (fold delete_cache ks c) = filter (\<lambda>(k, item). k \<notin> set ks) (cache c)"
proof (induction ks arbitrary: c)
  case Nil
  then show ?case by simp
next
  case (Cons k ks)
  have "cache (fold delete_cache (k # ks) c) = cache (fold delete_cache ks (delete_cache k c))"
    by simp
  also have "\<dots> = filter (\<lambda>(k', item). k' \<notin> set ks) (cache (delete_cache k c))"
    by (rule Cons.IH)
  also have "\<dots> = filter (\<lambda>(k', item). k' \<notin> set (k # ks)) (cache c)"
    unfolding cache_delete_cache filter_filter by (rule filter_cong) auto
  finally show ?case .
qed

lemma defaultTTL_fold_delete: "defaultTTL (fold delete_cache ks c) = defaultTTL c"
  by (induction ks arbitrary: c) (simp_all add: delete_cache_def)

lemma cache_clearCacheByPattern:
  "cache (clearCacheByPattern pattern c) =
     filter (\<lambda>(key, item). \<not> includes_str key pattern) (cache c)"
  unfolding clearCacheByPattern_def Let_def cache_fold_delete
  by (rule filter_cong) (force simp: getStats_def)+

lemma map_of_filter_keys:
  "map_of (filter (\<lambda>(k, v). P k) al) key = (if P key then map_of al key else None)"
  by (induction al) auto

text \<open>
  C6. After \<open>clearCacheByPattern(pattern)\<close> the store holds exactly the entries, in their
  order and unchanged, whose key does not contain \<open>pattern\<close> as a contiguous substring:
  a key is present afterwards if and only if it was present before and does not contain
  the pattern. The default TTL is untouched, and when no key matches the store is the
  same as before. With the keys \<open>GET:https://a/x\<close>, \<open>GET:https://a/y\<close> and
  \<open>GET:https://b/z\<close>, the pattern \<open>/a/\<close> removes the first two and leaves the third.
\<close>

theorem clearCacheByPattern_selective:
  "cache (clearCacheByPattern pattern c) =
     filter (\<lambda>(key, item). \<not> includes_str key pattern) (cache c)
   \<and> defaultTTL (clearCacheByPattern pattern c) = defaultTTL c
   \<and> map_of (cache (clearCacheByPattern pattern c)) key =
       (if includes_str key pattern then None else map_of (cache c) key)
   \<and> (includes_str key pattern \<longleftrightarrow> (\<exists>pre post. key = pre @ pattern @ post))
   \<and> ((\<forall>k \<in> set (keys_stats (getStats c)). \<not> includes_str k pattern) \<longrightarrow>
        clearCacheByPattern pattern c = c)"
proof -
  have noop: "clearCacheByPattern pattern c = c"
    if "\<forall>k \<in> set (keys_stats (getStats c)). \<not> includes_str k pattern"
  proof -
    have "filter (\<lambda>key. includes_str key pattern) (keys_stats (getStats c)) = []"
      using that by (simp add: filter_empty_conv)
    then show ?thesis by (simp add: clearCacheByPattern_def Let_def)
  qed
  have look: "map_of (cache (clearCacheByPattern pattern c)) key =
       (if includes_str key pattern then None else map_of (cache c) key)"
    unfolding cache_clearCacheByPattern
    using map_of_filter_keys [of "\<lambda>k. \<not> includes_str k pattern" "cache c" key] by simp
  have dttl: "defaultTTL (clearCacheByPattern pattern c) = defaultTTL c"
    by (simp add: clearCacheByPattern_def Let_def defaultTTL_fold_delete)
  show ?thesis
    using noop look dttl cache_clearCacheByPattern [of pattern c] includes_str_iff [of key pattern]
    by blast
qed

theorem clearCacheByPattern_selective_witness:
  "\<not> includes_str ''GET:https://a/x'' ''/c/''
   \<and> \<not> includes_str ''GET:https://a/y'' ''/c/''
   \<and> \<not> includes_str ''GET:https://b/z'' ''/c/''
   \<and> clearCacheByPattern ''/c/''
        \<lparr>cache = [(''GET:https://a/x'', \<lparr>data = JVal (1::nat), timestamp = 0, expiresAt = 50\<rparr>),
                  (''GET:https://a/y'', \<lparr>data = JVal 2, timestamp = 1, expiresAt = 51\<rparr>),
                  (''GET:https://b/z'', \<lparr>data = JVal 3, timestamp = 2, expiresAt = 52\<rparr>)],
         defaultTTL = 300000\<rparr>
     = \<lparr>cache = [(''GET:https://a/x'', \<lparr>data = JVal (1::nat), timestamp = 0, expiresAt = 50\<rparr>),
                  (''GET:https://a/y'', \<lparr>data = JVal 2, timestamp = 1, expiresAt = 51\<rparr>),
                  (''GET:https://b/z'', \<lparr>data = JVal 3, timestamp = 2, expiresAt = 52\<rparr>)],
         defaultTTL = 300000\<rparr>
   \<and> cache (clearCacheByPattern ''/a/''
        \<lparr>cache = [(''GET:https://a/x'', \<lparr>data = JVal (1::nat), timestamp = 0, expiresAt = 50\<rparr>),
                  (''GET:https://a/y'', \<lparr>data = JVal 2, timestamp = 1, expiresAt = 51\<rparr>),
                  (''GET:https://b/z'', \<lparr>data = JVal 3, timestamp = 2, expiresAt = 52\<rparr>)],
         defaultTTL = 300000\<rparr>)
     = [(''GET:https://b/z'', \<lparr>data = JVal 3, timestamp = 2, expiresAt = 52\<rparr>)]"
  using clearCacheByPattern_selective [of "''/c/''"
        "\<lparr>cache = [(''GET:https://a/x'', \<lparr>data = JVal (1::nat), timestamp = 0, expiresAt = 50\<rparr>),
                  (''GET:https://a/y'', \<lparr>data = JVal 2, timestamp = 1, expiresAt = 51\<rparr>),
                  (''GET:https://b/z'', \<lparr>data = JVal 3, timestamp = 2, expiresAt = 52\<rparr>)],
         defaultTTL = 300000\<rparr>" "''GET:https://a/x''"]
      clearCacheByPattern_selective [of "''/a/''"
        "\<lparr>cache = [(''GET:https://a/x'', \<lparr>data = JVal (1::nat), timestamp = 0, expiresAt = 50\<rparr>),
                  (''GET:https://a/y'', \<lparr>data = JVal 2, timestamp = 1, expiresAt = 51\<rparr>),
                  (''GET:https://b/z'', \<lparr>data = JVal 3, timestamp = 2, expiresAt = 52\<rparr>)],
         defaultTTL = 300000\<rparr>" "''GET:https://a/x''"]
  by (simp add: getStats_def)

section \<open>Lazy purge, \<open>has\<close> and stored nulls\<close>

lemma length_delete_distinct:
  "distinct (map fst al) \<Longrightarrow> map_of al key = Some item \<Longrightarrow>
   Suc (length (AList.delete key al)) = length al"
proof (induction al)
  case Nil
  then show ?case by simp
next
  case (Cons p ps)
  show ?case
  proof (cases "fst p = key")
    case True
    then have "key \<notin> fst ` set ps" using Cons.prems(1) by auto
    then show ?thesis using True by simp
  next
    case False
    then have "map_of ps key = Some item" using Cons.prems(2) by (cases p) (auto split: if_splits)
    then show ?thesis using False Cons.IH Cons.prems(1) by simp
  qed
qed

text \<open>
  C7. When the entry of \<open>key\<close> is expired at the time of the read (\<open>now > expiresAt\<close>),
  \<open>get(key)\<close> answers \<open>null\<close> and deletes that entry: the keys listed by \<open>getStats\<close>
  afterwards are the former ones without \<open>key\<close>, and every other key keeps its entry.
\<close>

theorem get_purges_expired:
  "map_of (cache c) key = Some item \<Longrightarrow> expiresAt item < now \<Longrightarrow>
   (case get key now c of (r, c') \<Rightarrow>
      r = JNull
    \<and> key \<notin> set (keys_stats (getStats c'))
    \<and> keys_stats (getStats c') = removeAll key (keys_stats (getStats c))
    \<and> cache c' = filter (\<lambda>(k, i). k \<noteq> key) (cache c)
    \<and> map_of (cache c') = (map_of (cache c))(key := None)
    \<and> defaultTTL c' = defaultTTL c)"
proof -
  assume entry: "map_of (cache c) key = Some item" and stale: "expiresAt item < now"
  have g: "get key now c = (JNull, delete_cache key c)"
    using entry stale by (rule get_stale)
  have keys: "map fst (cache (delete_cache key c)) = removeAll key (map fst (cache c))"
    by (simp add: delete_cache_def delete_keys)
  have look: "map_of (cache (delete_cache key c)) = (map_of (cache c))(key := None)"
    by (simp add: delete_cache_def delete_conv')
  have dttl: "defaultTTL (delete_cache key c) = defaultTTL c"
    by (simp add: delete_cache_def)
  show ?thesis
    unfolding g prod.case using keys look dttl cache_delete_cache [of key c]
    by (simp add: getStats_def)
qed

theorem get_purges_expired_witness:
  "map_of (cache \<lparr>cache = [(''a'', \<lparr>data = JVal (1::nat), timestamp = 0, expiresAt = 1000\<rparr>),
                           (''k'', \<lparr>data = JVal 2, timestamp = 0, expiresAt = 1000\<rparr>),
                           (''b'', \<lparr>data = JVal 3, timestamp = 0, expiresAt = 1000\<rparr>)],
                  defaultTTL = 1000\<rparr>) ''k'' = Some \<lparr>data = JVal 2, timestamp = 0, expiresAt = 1000\<rparr>
   \<and> expiresAt \<lparr>data = JVal (2::nat), timestamp = 0, expiresAt = 1000\<rparr> < 1500
   \<and> get ''k'' 1500 \<lparr>cache = [(''a'', \<lparr>data = JVal (1::nat), timestamp = 0, expiresAt = 1000\<rparr>),
                           (''k'', \<lparr>data = JVal 2, timestamp = 0, expiresAt = 1000\<rparr>),
                           (''b'', \<lparr>data = JVal 3, timestamp = 0, expiresAt = 1000\<rparr>)],
                  defaultTTL = 1000\<rparr>
     = (JNull, \<lparr>cache = [(''a'', \<lparr>data = JVal (1::nat), timestamp = 0, expiresAt = 1000\<rparr>),
                           (''b'', \<lparr>data = JVal 3, timestamp = 0, expiresAt = 1000\<rparr>)],
                  defaultTTL = 1000\<rparr>)
   \<and> keys_stats (getStats (snd (get ''k'' 1500
          \<lparr>cache = [(''a'', \<lparr>data = JVal (1::nat), timestamp = 0, expiresAt = 1000\<rparr>),
                           (''k'', \<lparr>data = JVal 2, timestamp = 0, expiresAt = 1000\<rparr>),
                           (''b'', \<lparr>data = JVal 3, timestamp = 0, expiresAt = 1000\<rparr>)],
                  defaultTTL = 1000\<rparr>))) = [''a'', ''b'']"
  using get_purges_expired [of
      "\<lparr>cache = [(''a'', \<lparr>data = JVal (1::nat), timestamp = 0, expiresAt = 1000\<rparr>),
                           (''k'', \<lparr>data = JVal 2, timestamp = 0, expiresAt = 1000\<rparr>),
                           (''b'', \<lparr>data = JVal 3, timestamp = 0, expiresAt = 1000\<rparr>)],
                  defaultTTL = 1000\<rparr>" "''k''" "\<lparr>data = JVal 2, timestamp = 0, expiresAt = 1000\<rparr>" 1500]
  by (simp add: getStats_def get_def split: prod.splits)

text \<open>
  C8. \<open>has(key)\<close> is true exactly when \<open>get(key)\<close>, at the same moment, returns something
  other than the absent signal \<open>null\<close>, and both leave the same store behind; so \<open>has\<close>
  is true exactly for a present, unexpired entry (whose value is not \<open>null\<close>), and false
  for a present but expired one.
\<close>

theorem has_iff_get:
  "fst (has key now c) = (fst (get key now c) \<noteq> JNull)
   \<and> snd (has key now c) = snd (get key now c)
   \<and> (fst (has key now c) \<longleftrightarrow>
        (\<exists>item. map_of (cache c) key = Some item \<and> now \<le> expiresAt item \<and> data item \<noteq> JNull))
   \<and> (map_of (cache c) key = Some item \<and> expiresAt item < now \<longrightarrow> \<not> fst (has key now c))"
  by (auto simp: has_def get_def split: prod.splits option.splits if_splits)

theorem has_iff_get_witness:
  "map_of (cache \<lparr>cache = [(''k'', \<lparr>data = JVal (2::nat), timestamp = 0, expiresAt = 1000\<rparr>)],
                  defaultTTL = 1000\<rparr>) ''k'' = Some \<lparr>data = JVal 2, timestamp = 0, expiresAt = 1000\<rparr>
   \<and> expiresAt \<lparr>data = JVal (2::nat), timestamp = 0, expiresAt = 1000\<rparr> < 1500
   \<and> \<not> fst (has ''k'' 1500 \<lparr>cache = [(''k'', \<lparr>data = JVal (2::nat), timestamp = 0, expiresAt = 1000\<rparr>)],
                  defaultTTL = 1000\<rparr>)
   \<and> fst (has ''k'' 1000 \<lparr>cache = [(''k'', \<lparr>data = JVal (2::nat), timestamp = 0, expiresAt = 1000\<rparr>)],
                  defaultTTL = 1000\<rparr>)"
  using has_iff_get [of "''k''" 1500 "\<lparr>cache = [(''k'', \<lparr>data = JVal (2::nat), timestamp = 0, expiresAt = 1000\<rparr>)],
                  defaultTTL = 1000\<rparr>" "\<lparr>data = JVal 2, timestamp = 0, expiresAt = 1000\<rparr>"]
    has_iff_get [of "''k''" 1000 "\<lparr>cache = [(''k'', \<lparr>data = JVal (2::nat), timestamp = 0, expiresAt = 1000\<rparr>)],
                  defaultTTL = 1000\<rparr>" "\<lparr>data = JVal 2, timestamp = 0, expiresAt = 1000\<rparr>"]
  by (simp add: get_def)

text \<open>
  C9. For a key holding an unexpired entry whose stored value is \<open>null\<close>, \<open>get(key)\<close>
  answers \<open>null\<close>, \<open>has(key)\<close> answers false, both leave the store as it is, the key is
  still listed and counted by \<open>size()\<close>, and a \<open>fetchWithCache\<close> of the GET URL of that
  key issues a network request.
\<close>

theorem null_value_is_miss:
  assumes entry: "map_of (cache (apiCache w)) key = Some item"
    and null: "data item = JNull"
    and fresh: "now \<le> expiresAt item"
  shows "get key now (apiCache w) = (JNull, apiCache w)
    \<and> has key now (apiCache w) = (False, apiCache w)
    \<and> key \<in> set (keys_stats (getStats (apiCache w)))
    \<and> 0 < size_cache (apiCache w)
    \<and> (method_of options = ''GET'' \<and> key = ''GET:'' @ url \<longrightarrow>
         requests (snd (fetchWithCache url options ttl now net t2 w)) = requests w @ [(url, options)])"
proof -
  have g: "get key now (apiCache w) = (JNull, apiCache w)"
    using get_fresh [OF entry fresh] null by simp
  have h: "has key now (apiCache w) = (False, apiCache w)"
    by (simp add: has_def g)
  have mem: "key \<in> fst ` set (cache (apiCache w))"
    using entry by (metis map_of_eq_None_iff option.distinct(1))
  then have ne: "cache (apiCache w) \<noteq> []" by auto
  have f: "requests (snd (fetchWithCache url options ttl now net t2 w)) = requests w @ [(url, options)]"
    if "method_of options = ''GET''" "key = ''GET:'' @ url"
    using that g by (simp add: fetchWithCache_GET requests_fetch_api)
  show ?thesis
    using g h mem ne f by (simp add: getStats_def size_cache_def)
qed

theorem null_value_is_miss_witness:
  "map_of (cache (apiCache
       \<lparr>apiCache = \<lparr>cache = [(''GET:https://a/x'', \<lparr>data = (JNull :: nat jsval), timestamp = 0, expiresAt = 1000\<rparr>)],
                    defaultTTL = 1000\<rparr>,
        requests = []\<rparr>)) ''GET:https://a/x''
     = Some \<lparr>data = JNull, timestamp = 0, expiresAt = 1000\<rparr>
   \<and> data \<lparr>data = (JNull :: nat jsval), timestamp = 0, expiresAt = 1000\<rparr> = JNull
   \<and> 500 \<le> expiresAt \<lparr>data = (JNull :: nat jsval), timestamp = 0, expiresAt = 1000\<rparr>
   \<and> method_of None = ''GET''
   \<and> has ''GET:https://a/x'' 500
        \<lparr>cache = [(''GET:https://a/x'', \<lparr>data = (JNull :: nat jsval), timestamp = 0, expiresAt = 1000\<rparr>)],
         defaultTTL = 1000\<rparr>
     = (False, \<lparr>cache = [(''GET:https://a/x'', \<lparr>data = JNull, timestamp = 0, expiresAt = 1000\<rparr>)],
                defaultTTL = 1000\<rparr>)
   \<and> size_cache
        \<lparr>cache = [(''GET:https://a/x'', \<lparr>data = (JNull :: nat jsval), timestamp = 0, expiresAt = 1000\<rparr>)],
         defaultTTL = 1000\<rparr> = 1
   \<and> requests (snd (fetchWithCache ''https://a/x'' None None 500
         (Some \<lparr>ok = True, status = 200, json = Some JNull\<rparr>) 501
         \<lparr>apiCache = \<lparr>cache = [(''GET:https://a/x'', \<lparr>data = (JNull :: nat jsval), timestamp = 0, expiresAt = 1000\<rparr>)],
                      defaultTTL = 1000\<rparr>,
          requests = []\<rparr>))
     = [(''https://a/x'', None)]"
  using null_value_is_miss [of
      "\<lparr>apiCache = \<lparr>cache = [(''GET:https://a/x'', \<lparr>data = (JNull :: nat jsval), timestamp = 0, expiresAt = 1000\<rparr>)],
                    defaultTTL = 1000\<rparr>,
        requests = []\<rparr>" "''GET:https://a/x''" "\<lparr>data = JNull, timestamp = 0, expiresAt = 1000\<rparr>" 500
      None "''https://a/x''" None "Some \<lparr>ok = True, status = 200, json = Some JNull\<rparr>" 501]
  by (simp add: method_of_def size_cache_def)

text \<open>
  C10. When the entry of \<open>key\<close> is expired at the time of the call, \<open>has(key)\<close> answers
  false and deletes the entry: the key is gone from the store, \<open>size()\<close> is smaller than
  before, and by exactly one in a store that holds each key once.
\<close>

theorem has_purges_expired:
  "map_of (cache c) key = Some item \<Longrightarrow> expiresAt item < now \<Longrightarrow>
   (case has key now c of (b, c') \<Rightarrow>
      \<not> b
    \<and> c' = delete_cache key c
    \<and> map_of (cache c') key = None
    \<and> size_cache c' < size_cache c
    \<and> (wf_cache c \<longrightarrow> size_cache c' + 1 = size_cache c))"
proof -
  assume entry: "map_of (cache c) key = Some item" and stale: "expiresAt item < now"
  have h: "has key now c = (False, delete_cache key c)"
    by (simp add: has_def get_stale [OF entry stale])
  have mem: "key \<in> fst ` set (cache c)"
    using entry by (metis map_of_eq_None_iff option.distinct(1))
  then obtain v where "(key, v) \<in> set (cache c)" by auto
  then have "length (filter (\<lambda>(k', i). key \<noteq> k') (cache c)) < length (cache c)"
    by (intro length_filter_less [where x = "(key, v)"]) auto
  then have less: "size_cache (delete_cache key c) < size_cache c"
    by (simp add: size_cache_def delete_cache_def AList.delete_eq)
  have one: "size_cache (delete_cache key c) + 1 = size_cache c" if "wf_cache c"
    using length_delete_distinct [OF _ entry] that
    by (simp add: wf_cache_def size_cache_def delete_cache_def)
  show ?thesis
    unfolding h prod.case using less one by (simp add: delete_cache_def delete_conv')
qed

theorem has_purges_expired_witness:
  "map_of (cache \<lparr>cache = [(''a'', \<lparr>data = JVal (1::nat), timestamp = 0, expiresAt = 2000\<rparr>),
                           (''k'', \<lparr>data = JVal 2, timestamp = 0, expiresAt = 1000\<rparr>)],
                  defaultTTL = 1000\<rparr>) ''k'' = Some \<lparr>data = JVal 2, timestamp = 0, expiresAt = 1000\<rparr>
   \<and> expiresAt \<lparr>data = JVal (2::nat), timestamp = 0, expiresAt = 1000\<rparr> < 1500
   \<and> wf_cache \<lparr>cache = [(''a'', \<lparr>data = JVal (1::nat), timestamp = 0, expiresAt = 2000\<rparr>),
                           (''k'', \<lparr>data = JVal 2, timestamp = 0, expiresAt = 1000\<rparr>)],
                  defaultTTL = 1000\<rparr>
   \<and> has ''k'' 1500 \<lparr>cache = [(''a'', \<lparr>data = JVal (1::nat), timestamp = 0, expiresAt = 2000\<rparr>),
                           (''k'', \<lparr>data = JVal 2, timestamp = 0, expiresAt = 1000\<rparr>)],
                  defaultTTL = 1000\<rparr>
     = (False, \<lparr>cache = [(''a'', \<lparr>data = JVal (1::nat), timestamp = 0, expiresAt = 2000\<rparr>)],
                defaultTTL = 1000\<rparr>)
   \<and> size_cache (snd (has ''k'' 1500
          \<lparr>cache = [(''a'', \<lparr>data = JVal (1::nat), timestamp = 0, expiresAt = 2000\<rparr>),
                           (''k'', \<lparr>data = JVal 2, timestamp = 0, expiresAt = 1000\<rparr>)],
                  defaultTTL = 1000\<rparr>)) + 1
     = size_cache \<lparr>cache = [(''a'', \<lparr>data = JVal (1::nat), timestamp = 0, expiresAt = 2000\<rparr>),
                           (''k'', \<lparr>data = JVal 2, timestamp = 0, expiresAt = 1000\<rparr>)],
                  defaultTTL = 1000\<rparr>"
  using has_purges_expired [of
      "\<lparr>cache = [(''a'', \<lparr>data = JVal (1::nat), timestamp = 0, expiresAt = 2000\<rparr>),
                           (''k'', \<lparr>data = JVal 2, timestamp = 0, expiresAt = 1000\<rparr>)],
                  defaultTTL = 1000\<rparr>" "''k''" "\<lparr>data = JVal 2, timestamp = 0, expiresAt = 1000\<rparr>" 1500]
  by (simp add: wf_cache_def delete_cache_def split: prod.splits)

end
